theory Spec2Isabelle
  imports Main "HOL-Library.Word"
begin

section \<open>The offline shell cache of the dashboard (sw.js)\<close>

text \<open>
  The service worker of the dashboard registers three event handlers: \<open>install\<close> fills a
  named cache with the shell assets, \<open>activate\<close> claims the open clients, and \<open>fetch\<close>
  answers GET requests from the network and falls back to the cache storage when the
  network rejects. The handlers are a few lines each; everything they do is a call of the
  browser's Cache, Fetch and ServiceWorker interfaces. The theory therefore has three
  layers: the values and the browser calls the handlers use, the handlers themselves
  (translated line by line), and the browser's side of the contract (what it does with
  the promise a handler hands to \<open>waitUntil\<close> or \<open>respondWith\<close>).
\<close>

subsection \<open>Requests, responses, promises\<close>

text \<open>
  Of a request the handlers read \<open>request.method\<close> (the field \<open>method_name\<close>) and pass
  the request on; its URL is what the network and the caches identify it by. A URL is
  written as the browser has parsed it, relative to the origin: path, query and, from the
  first \<open>#\<close> on, the fragment.
\<close>

record request =
  method_name :: string
  url :: string

record response =
  status :: nat
  body :: "8 word list"

text \<open>
  What a promise can be rejected with here: the rejection of a network attempt
  (\<open>fetch\<close> rejects with a TypeError that carries a message), the TypeError of
  \<open>cache.addAll\<close> for a response that may not be stored, its InvalidStateError for a URL
  listed twice (fragments apart), and the browser's own error for a \<open>respondWith\<close> promise that is
  fulfilled with something that is not a Response.
\<close>

datatype reason =
  NetworkFailure string
  | BadResponse string
  | InvalidState
  | NotAResponse

datatype 'a settled = Fulfilled 'a | Rejected reason

text \<open>The network as one handler run sees it: every request is answered or rejected.\<close>

type_synonym network = "request \<Rightarrow> reason + response"

text \<open>
  A cache is the browser's request-to-response list (insertion order, a request at most
  once); the cache storage of the origin is its name-to-cache list in creation order.
  A request made from a URL string is a GET request, and the key of an entry is its URL.
\<close>

type_synonym cache = "(string \<times> response) list"

type_synonym cache_storage = "(string \<times> cache) list"

definition get_request :: "string \<Rightarrow> request" where
  "get_request u = \<lparr>method_name = ''GET'', url = u\<rparr>"

subsection \<open>The worker's state and the browser calls it makes\<close>

datatype call =
  CachesOpen string
  | CacheAddAll string "string list"
  | CachesMatch request
  | NetFetch request
  | WaitUntil
  | SkipWaiting
  | ClientsClaim
  | RespondWith

text \<open>
  The state a handler run threads through: the origin's cache storage, the worker's
  skip-waiting flag, and the calls issued so far, in the order they were issued.
\<close>

record worker =
  storage :: cache_storage
  skip_waiting_flag :: bool
  calls :: "call list"

definition issue :: "call \<Rightarrow> worker \<Rightarrow> worker" where
  "issue c w = w\<lparr>calls := calls w @ [c]\<rparr>"

text \<open>\<open>fetch(request)\<close>: the promise settles as the network answers.\<close>

definition net_fetch :: "network \<Rightarrow> request \<Rightarrow> worker \<Rightarrow> response settled \<times> worker" where
  "net_fetch net req w =
     ((case net req of Inl e \<Rightarrow> Rejected e | Inr r \<Rightarrow> Fulfilled r), issue (NetFetch req) w)"

text \<open>
  The caches compare URLs without their fragments: a request for \<open>/index.html#top\<close>
  matches the entry stored under \<open>/index.html\<close>. The query is part of the comparison.
\<close>

definition without_fragment :: "string \<Rightarrow> string" where
  "without_fragment u = takeWhile (\<lambda>c. c \<noteq> CHR ''#'') u"

definition same_url :: "string \<Rightarrow> string \<Rightarrow> bool" where
  "same_url u v = (without_fragment u = without_fragment v)"

text \<open>\<open>cache.match\<close>: the first entry whose URL matches the request's, if any.\<close>

definition cache_match :: "cache \<Rightarrow> string \<Rightarrow> response option" where
  "cache_match c u = map_option snd (find (\<lambda>e. same_url (fst e) u) c)"

text \<open>
  \<open>caches.match(request)\<close> is a method of the cache storage, not of one cache: it asks
  every cache of the origin in creation order and is fulfilled with the first entry found,
  or with \<open>undefined\<close> (here \<open>None\<close>) when no cache has one. A request whose method is
  not GET matches nothing.
\<close>

fun storage_match :: "cache_storage \<Rightarrow> string \<Rightarrow> response option" where
  "storage_match [] u = None"
| "storage_match ((n, c) # cs) u =
     (case cache_match c u of Some r \<Rightarrow> Some r | None \<Rightarrow> storage_match cs u)"

definition caches_match :: "request \<Rightarrow> worker \<Rightarrow> response option settled \<times> worker" where
  "caches_match req w =
     (Fulfilled (if method_name req = ''GET'' then storage_match (storage w) (url req) else None),
      issue (CachesMatch req) w)"

text \<open>
  \<open>caches.open(name)\<close>: the cache of that name, created empty at the end of the storage
  when there is none. The handle of a cache is its name.
\<close>

definition caches_open :: "string \<Rightarrow> worker \<Rightarrow> string \<times> worker" where
  "caches_open name w =
     (name,
      issue (CachesOpen name)
        (if map_of (storage w) name = None
         then w\<lparr>storage := storage w @ [(name, [])]\<rparr> else w))"

text \<open>Storing an entry removes the entries its URL matches and appends the new one.\<close>

definition cache_put :: "cache \<Rightarrow> string \<times> response \<Rightarrow> cache" where
  "cache_put c kv = filter (\<lambda>e. \<not> same_url (fst e) (fst kv)) c @ [kv]"

definition update_cache :: "string \<Rightarrow> (cache \<Rightarrow> cache) \<Rightarrow> cache_storage \<Rightarrow> cache_storage" where
  "update_cache name f cs = map (\<lambda>e. if fst e = name then (fst e, f (snd e)) else e) cs"

text \<open>
  \<open>cache.addAll(urls)\<close> issues a GET for every URL, and rejects without storing anything
  when one of them is rejected or answered with a status outside 200..299 or with 206,
  or when two URLs of the list match each other. Only when every response may be stored
  are they all put, in the order of the list.
\<close>

definition addable :: "response \<Rightarrow> bool" where
  "addable r = (200 \<le> status r \<and> status r \<le> 299 \<and> status r \<noteq> 206)"

fun fetch_all :: "network \<Rightarrow> string list \<Rightarrow> worker \<Rightarrow> cache settled \<times> worker" where
  "fetch_all net [] w = (Fulfilled [], w)"
| "fetch_all net (u # us) w =
     (let (p, w1) = net_fetch net (get_request u) w;
          (ps, w2) = fetch_all net us w1
      in case p of
           Rejected e \<Rightarrow> (Rejected e, w2)
         | Fulfilled r \<Rightarrow>
             if \<not> addable r then (Rejected (BadResponse u), w2)
             else (case ps of
                     Rejected e \<Rightarrow> (Rejected e, w2)
                   | Fulfilled kvs \<Rightarrow> (Fulfilled ((u, r) # kvs), w2)))"

definition cache_addAll :: "network \<Rightarrow> string \<Rightarrow> string list \<Rightarrow> worker \<Rightarrow> unit settled \<times> worker" where
  "cache_addAll net name urls w =
     (let (ps, w1) = fetch_all net urls (issue (CacheAddAll name urls) w)
      in case ps of
           Rejected e \<Rightarrow> (Rejected e, w1)
         | Fulfilled kvs \<Rightarrow>
             if \<not> distinct (map without_fragment urls) then (Rejected InvalidState, w1)
             else (Fulfilled (),
                   w1\<lparr>storage := update_cache name (\<lambda>c. foldl cache_put c kvs) (storage w1)\<rparr>))"

definition waitUntil :: "worker \<Rightarrow> worker" where
  "waitUntil w = issue WaitUntil w"

definition respondWith :: "worker \<Rightarrow> worker" where
  "respondWith w = issue RespondWith w"

definition skipWaiting :: "worker \<Rightarrow> worker" where
  "skipWaiting w = issue SkipWaiting (w\<lparr>skip_waiting_flag := True\<rparr>)"

definition clients_claim :: "worker \<Rightarrow> unit settled \<times> worker" where
  "clients_claim w = (Fulfilled (), issue ClientsClaim w)"

subsection \<open>The handlers of sw.js\<close>

definition CACHE_NAME :: string where
  "CACHE_NAME = ''topview-shell-v1''"

definition ASSETS :: "string list" where
  "ASSETS = [''/'', ''/index.html'', ''/manifest.json'']"

text \<open>
  The install handler. In the order of the source: \<open>caches.open\<close> is called and the
  population is chained to it, the chained promise is handed to \<open>waitUntil\<close>,
  \<open>skipWaiting\<close> is called, and the handler returns; the population runs afterwards. The
  result is how the promise handed to \<open>waitUntil\<close> settles.
\<close>

definition install_handler :: "network \<Rightarrow> worker \<Rightarrow> unit settled \<times> worker" where
  "install_handler net w =
     (let (cache, w1) = caches_open CACHE_NAME w;
          w2 = waitUntil w1;
          w3 = skipWaiting w2
      in cache_addAll net cache ASSETS w3)"

definition activate_handler :: "worker \<Rightarrow> unit settled \<times> worker" where
  "activate_handler w = (let (p, w1) = clients_claim w in (p, waitUntil w1))"

text \<open>
  The fetch handler either returns without answering (any method but GET), or hands
  \<open>respondWith\<close> the promise \<open>fetch(request).catch(() => caches.match(request))\<close>: the
  network's response when there is one, and otherwise whatever \<open>caches.match\<close> is
  fulfilled with. The rejection of the network attempt is not passed on: the catch
  callback takes no argument.
\<close>

datatype handled = NotHandled | RespondedWith "response option settled"

definition fetch_handler :: "network \<Rightarrow> request \<Rightarrow> worker \<Rightarrow> handled \<times> worker" where
  "fetch_handler net req w =
     (if method_name req \<noteq> ''GET'' then (NotHandled, w)
      else
        let (p, w1) = net_fetch net req w;
            w2 = respondWith w1
        in case p of
             Fulfilled r \<Rightarrow> (RespondedWith (Fulfilled (Some r)), w2)
           | Rejected e \<Rightarrow>
               (let (m, w3) = caches_match req w2 in (RespondedWith m, w3)))"

subsection \<open>The browser's side\<close>

text \<open>
  What the caller of an intercepted request gets. When the handler did not call
  \<open>respondWith\<close> the browser performs the request itself. A \<open>respondWith\<close> promise that
  is rejected, or fulfilled with something that is not a Response, is a network error
  for the caller.
\<close>

datatype delivery = Delivered response | NetworkError reason

definition handle_fetch :: "network \<Rightarrow> request \<Rightarrow> worker \<Rightarrow> delivery \<times> worker" where
  "handle_fetch net req w =
     (let (h, w1) = fetch_handler net req w
      in ((case h of
             NotHandled \<Rightarrow> (case net req of Inl e \<Rightarrow> NetworkError e | Inr r \<Rightarrow> Delivered r)
           | RespondedWith (Fulfilled (Some r)) \<Rightarrow> Delivered r
           | RespondedWith (Fulfilled None) \<Rightarrow> NetworkError NotAResponse
           | RespondedWith (Rejected e) \<Rightarrow> NetworkError e), w1))"

text \<open>
  The life of a worker: it is installing while its install handler runs; when the
  promise handed to \<open>waitUntil\<close> is rejected the installation has failed and the worker is
  discarded (redundant), otherwise it is installed and waits. A waiting worker is
  activated unless an older worker is in use and its own skip-waiting flag is not set; its
  activate handler runs and it is activated however that handler's promise settles.
\<close>

datatype phase = Installing | Installed | Activated | Redundant

datatype lifecycle_error = InstallFailure reason

definition run_install :: "network \<Rightarrow> worker \<Rightarrow> (phase \<times> lifecycle_error option) \<times> worker" where
  "run_install net w =
     (let (p, w1) = install_handler net w
      in case p of
           Rejected e \<Rightarrow> ((Redundant, Some (InstallFailure e)), w1)
         | Fulfilled _ \<Rightarrow> ((Installed, None), w1))"

definition lifecycle :: "network \<Rightarrow> bool \<Rightarrow> worker \<Rightarrow> (phase \<times> lifecycle_error option) \<times> worker" where
  "lifecycle net older_in_use w =
     (let (st, w1) = run_install net w
      in if fst st \<noteq> Installed then (st, w1)
         else if older_in_use \<and> \<not> skip_waiting_flag w1 then (st, w1)
         else (let (p, w2) = activate_handler w1 in ((Activated, None), w2)))"

text \<open>The contents of the cache namespace of this version: empty when it does not exist.\<close>

definition namespace :: "cache_storage \<Rightarrow> cache" where
  "namespace cs = (case map_of cs CACHE_NAME of None \<Rightarrow> [] | Some c \<Rightarrow> c)"

subsection \<open>Sample networks and workers\<close>

text \<open>
  Concrete surroundings on which the theorems below are exercised: a network that is
  down, one that serves the shell, the same site after the shell was redeployed, a worker
  that starts with an empty cache storage, and one whose origin still holds the cache of
  an older version (nothing in sw.js deletes a cache).
\<close>

definition index_page :: response where
  "index_page = \<lparr>status = 200, body = [60, 104, 49, 62]\<rparr>"

definition new_page :: response where
  "new_page = \<lparr>status = 200, body = [60, 104, 50, 62]\<rparr>"

definition stale_page :: response where
  "stale_page = \<lparr>status = 200, body = [111, 108, 100]\<rparr>"

definition old_script :: response where
  "old_script = \<lparr>status = 200, body = [118, 48]\<rparr>"

definition manifest :: response where
  "manifest = \<lparr>status = 200, body = [123, 125]\<rparr>"

definition offline :: network where
  "offline req = Inl (NetworkFailure ''offline'')"

definition online :: network where
  "online req =
     (if url req = ''/'' \<or> url req = ''/index.html'' then Inr index_page
      else if url req = ''/manifest.json'' then Inr manifest
      else Inr \<lparr>status = 404, body = []\<rparr>)"

definition redeployed :: network where
  "redeployed req =
     (if url req = ''/'' \<or> url req = ''/index.html'' then Inr new_page
      else if url req = ''/manifest.json'' then Inr manifest
      else Inr \<lparr>status = 404, body = []\<rparr>)"

definition manifest_missing :: network where
  "manifest_missing req =
     (if url req = ''/manifest.json'' then Inl (NetworkFailure ''timeout'') else online req)"

definition shell_server :: network where
  "shell_server req =
     (if url req = ''/'' \<or> url req = ''/index.html'' then Inr index_page
      else if url req = ''/manifest.json'' then Inr manifest
      else Inl (NetworkFailure ''refused''))"

definition shell :: cache where
  "shell = [(''/'', index_page), (''/index.html'', index_page), (''/manifest.json'', manifest)]"

definition fresh :: worker where
  "fresh = \<lparr>storage = [], skip_waiting_flag = False, calls = []\<rparr>"

definition shell_only :: worker where
  "shell_only = \<lparr>storage = [(''topview-shell-v1'', shell)], skip_waiting_flag = True, calls = []\<rparr>"

definition with_older_cache :: worker where
  "with_older_cache =
     \<lparr>storage = [(''topview-shell-v0'', [(''/index.html'', stale_page), (''/app.js'', old_script)]),
                 (''topview-shell-v1'', shell)],
      skip_waiting_flag = True, calls = []\<rparr>"

definition post_projects :: request where
  "post_projects = \<lparr>method_name = ''POST'', url = ''/index.html''\<rparr>"

section \<open>Properties of the browser calls\<close>

lemma snd_fetch_all:
  "snd (fetch_all net us w) = w\<lparr>calls := calls w @ map (\<lambda>u. NetFetch (get_request u)) us\<rparr>"
  by (induction us arbitrary: w)
     (simp_all add: Let_def case_prod_beta net_fetch_def issue_def split: settled.splits sum.splits)

lemma fst_fetch_all_worker: "fst (fetch_all net us w) = fst (fetch_all net us w')"
proof (induction us arbitrary: w w')
  case Nil
  show ?case by simp
next
  case (Cons u us)
  have "fst (fetch_all net us (snd (net_fetch net (get_request u) w)))
      = fst (fetch_all net us (snd (net_fetch net (get_request u) w')))"
    by (rule Cons.IH)
  then show ?case
    by (simp add: Let_def case_prod_beta net_fetch_def split: settled.splits sum.splits)
qed

lemma fetch_all_Fulfilled:
  "fst (fetch_all net us w) = Fulfilled kvs \<Longrightarrow>
     map fst kvs = us \<and> (\<forall>e\<in>set kvs. net (get_request (fst e)) = Inr (snd e) \<and> addable (snd e))"
proof (induction us arbitrary: w kvs)
  case Nil
  then show ?case by simp
next
  case (Cons u us)
  let ?w1 = "snd (net_fetch net (get_request u) w)"
  from Cons.prems obtain r kvs' where
    r: "net (get_request u) = Inr r" "addable r"
    and tl: "fst (fetch_all net us ?w1) = Fulfilled kvs'"
    and kvs: "kvs = (u, r) # kvs'"
    by (auto simp: Let_def case_prod_beta net_fetch_def split: settled.splits sum.splits if_splits)
  from Cons.IH [OF tl] r kvs show ?case by simp
qed

lemma fetch_all_Rejected:
  "u \<in> set us \<Longrightarrow> net (get_request u) = Inl e \<Longrightarrow> \<exists>e'. fst (fetch_all net us w) = Rejected e'"
proof (induction us arbitrary: w)
  case Nil
  then show ?case by simp
next
  case (Cons v us)
  show ?case
  proof (cases "v = u")
    case True
    with Cons.prems show ?thesis
      by (simp add: Let_def case_prod_beta net_fetch_def)
  next
    case False
    with Cons.prems have "u \<in> set us" by simp
    from Cons.IH [OF this Cons.prems(2)]
    obtain e' where "fst (fetch_all net us (snd (net_fetch net (get_request v) w))) = Rejected e'"
      by blast
    then show ?thesis
      by (simp add: Let_def case_prod_beta split: settled.splits)
  qed
qed

lemma fetch_all_cong:
  "(\<forall>u\<in>set us. net2 (get_request u) = net (get_request u)) \<Longrightarrow>
     fst (fetch_all net2 us w') = fst (fetch_all net us w)"
proof (induction us arbitrary: w w')
  case Nil
  show ?case by simp
next
  case (Cons u us)
  have hd: "net2 (get_request u) = net (get_request u)" using Cons.prems by simp
  have "fst (fetch_all net2 us (snd (net_fetch net2 (get_request u) w')))
      = fst (fetch_all net us (snd (net_fetch net (get_request u) w)))"
    using Cons.prems by (intro Cons.IH) simp
  with hd show ?case
    by (simp add: Let_def case_prod_beta net_fetch_def split: settled.splits sum.splits)
qed

text \<open>Putting entries whose URLs do not match each other drops the old entries they match
  and appends them.\<close>

lemma foldl_cache_put:
  "distinct (map (\<lambda>e. without_fragment (fst e)) kvs) \<Longrightarrow>
     foldl cache_put c kvs =
       filter (\<lambda>e. without_fragment (fst e) \<notin> set (map (\<lambda>e. without_fragment (fst e)) kvs)) c
         @ kvs"
proof (induction kvs arbitrary: c)
  case Nil
  show ?case by simp
next
  case (Cons kv kvs)
  let ?k = "\<lambda>e::string \<times> response. without_fragment (fst e)"
  from Cons.prems have d: "distinct (map ?k kvs)" and n: "?k kv \<notin> set (map ?k kvs)"
    by simp_all
  have "foldl cache_put c (kv # kvs) = foldl cache_put (cache_put c kv) kvs" by simp
  also have "\<dots> = filter (\<lambda>e. ?k e \<notin> set (map ?k kvs)) (cache_put c kv) @ kvs"
    by (rule Cons.IH [OF d])
  also have "filter (\<lambda>e. ?k e \<notin> set (map ?k kvs)) (cache_put c kv)
      = filter (\<lambda>e. ?k e \<notin> set (map ?k (kv # kvs))) c @ [kv]"
    using n by (auto simp: cache_put_def same_url_def intro: filter_cong)
  finally show ?case by simp
qed

lemma foldl_cache_put_twice:
  assumes "distinct (map (\<lambda>e. without_fragment (fst e)) kvs)"
  shows "foldl cache_put (foldl cache_put c kvs) kvs = foldl cache_put c kvs"
proof -
  have "filter (\<lambda>e. without_fragment (fst e)
                 \<notin> set (map (\<lambda>e. without_fragment (fst e)) kvs)) kvs = []"
    by (simp add: filter_empty_conv)
  then show ?thesis
    by (simp add: foldl_cache_put [OF assms])
qed

lemma map_of_update_cache:
  "map_of (update_cache n f cs) k = (if k = n then map_option f (map_of cs n) else map_of cs k)"
  by (induction cs) (auto simp: update_cache_def)

lemma update_cache_twice:
  "update_cache n f (update_cache n g cs) = update_cache n (\<lambda>c. f (g c)) cs"
  by (simp add: update_cache_def comp_def cong: if_cong)

lemma storage_match_append:
  "storage_match (xs @ ys) u =
     (case storage_match xs u of Some r \<Rightarrow> Some r | None \<Rightarrow> storage_match ys u)"
  by (induction xs) (auto split: option.splits)

section \<open>Properties of the install handler's parts\<close>

lemma distinct_ASSETS: "distinct (map without_fragment ASSETS)"
  by (simp add: ASSETS_def without_fragment_def)

lemma distinct_keys_ASSETS:
  assumes "map fst kvs = ASSETS"
  shows "distinct (map (\<lambda>e. without_fragment (fst e)) kvs)"
proof -
  have "map (\<lambda>e. without_fragment (fst e)) kvs = map without_fragment (map fst kvs)"
    by simp
  with assms show ?thesis by (simp only: distinct_ASSETS)
qed

lemma fst_cache_addAll_worker:
  "fst (cache_addAll net n us w) = fst (cache_addAll net n us w')"
proof -
  have "fst (fetch_all net us (issue (CacheAddAll n us) w))
      = fst (fetch_all net us (issue (CacheAddAll n us) w'))"
    by (rule fst_fetch_all_worker)
  then show ?thesis
    by (simp add: cache_addAll_def Let_def case_prod_beta split: settled.splits)
qed

lemma fst_install_handler_addAll:
  "fst (install_handler net w) = fst (cache_addAll net CACHE_NAME ASSETS w)"
proof -
  have "fst (install_handler net w)
      = fst (cache_addAll net CACHE_NAME ASSETS
               (skipWaiting (waitUntil (snd (caches_open CACHE_NAME w)))))"
    by (simp add: install_handler_def caches_open_def Let_def)
  also have "\<dots> = fst (cache_addAll net CACHE_NAME ASSETS w)"
    by (rule fst_cache_addAll_worker)
  finally show ?thesis .
qed

lemma fst_install_handler:
  "fst (install_handler net w) =
     (case fst (fetch_all net ASSETS w) of Rejected e \<Rightarrow> Rejected e | Fulfilled kvs \<Rightarrow> Fulfilled ())"
proof -
  have "fst (fetch_all net ASSETS (issue (CacheAddAll CACHE_NAME ASSETS) w))
      = fst (fetch_all net ASSETS w)"
    by (rule fst_fetch_all_worker)
  then show ?thesis
    by (simp add: fst_install_handler_addAll cache_addAll_def Let_def case_prod_beta
          distinct_ASSETS split: settled.splits)
qed

lemmas handler_defs =
  handle_fetch_def fetch_handler_def net_fetch_def caches_match_def respondWith_def issue_def
  get_request_def

lemmas sample_defs =
  offline_def online_def redeployed_def manifest_missing_def shell_server_def shell_def
  fresh_def shell_only_def with_older_cache_def post_projects_def index_page_def new_page_def stale_page_def
  old_script_def manifest_def CACHE_NAME_def ASSETS_def namespace_def
  cache_match_def same_url_def without_fragment_def

lemmas install_defs =
  install_handler_def cache_addAll_def caches_open_def waitUntil_def skipWaiting_def
  update_cache_def cache_put_def addable_def run_install_def lifecycle_def
  activate_handler_def clients_claim_def


lemma storage_install_handler:
  "storage (snd (install_handler net w)) =
     (case fst (fetch_all net ASSETS w) of
        Rejected e \<Rightarrow> storage (snd (caches_open CACHE_NAME w))
      | Fulfilled kvs \<Rightarrow>
          update_cache CACHE_NAME (\<lambda>c. foldl cache_put c kvs)
            (storage (snd (caches_open CACHE_NAME w))))"
proof -
  let ?w3 = "issue (CacheAddAll CACHE_NAME ASSETS)
               (skipWaiting (waitUntil (snd (caches_open CACHE_NAME w))))"
  have "fst (fetch_all net ASSETS ?w3) = fst (fetch_all net ASSETS w)"
    by (rule fst_fetch_all_worker)
  then show ?thesis
    by (simp add: install_handler_def cache_addAll_def caches_open_def Let_def case_prod_beta
          distinct_ASSETS snd_fetch_all issue_def skipWaiting_def waitUntil_def
          split: settled.splits)
qed

lemma calls_install_handler:
  "calls (snd (install_handler net w)) =
     calls w @ [CachesOpen CACHE_NAME, WaitUntil, SkipWaiting, CacheAddAll CACHE_NAME ASSETS]
       @ map (\<lambda>u. NetFetch (get_request u)) ASSETS"
  by (simp add: install_handler_def cache_addAll_def caches_open_def Let_def case_prod_beta
        distinct_ASSETS snd_fetch_all issue_def skipWaiting_def waitUntil_def
        split: settled.splits)

lemma flag_install_handler: "skip_waiting_flag (snd (install_handler net w))"
  by (simp add: install_handler_def cache_addAll_def caches_open_def Let_def case_prod_beta
        distinct_ASSETS snd_fetch_all issue_def skipWaiting_def waitUntil_def
        split: settled.splits)

lemma namespace_opened:
  "map_of (storage (snd (caches_open CACHE_NAME w))) CACHE_NAME = Some (namespace (storage w))"
  by (auto simp: caches_open_def issue_def namespace_def map_add_def)

lemma namespace_update_cache:
  "map_of cs CACHE_NAME = Some c \<Longrightarrow> namespace (update_cache CACHE_NAME f cs) = f c"
  by (simp add: namespace_def map_of_update_cache)

section \<open>The fetch handler\<close>

text \<open>
  Matching ignores the fragment: with the network down, a request for
  \<open>/index.html#top\<close> is answered with the entry stored under \<open>/index.html\<close>.
\<close>

lemma fragment_request_served:
  "storage_match (storage shell_only) ''/index.html#top'' = Some index_page
     \<and> fst (handle_fetch offline (get_request ''/index.html#top'') shell_only)
         = Delivered index_page
     \<and> fst (handle_fetch offline (get_request ''/index.html#top'') with_older_cache)
         = Delivered stale_page"
  by (simp add: handler_defs sample_defs)

text \<open>
  C1, as amended. When a GET request is rejected by the network and no cache of the
  origin's cache storage has an entry matching its URL, the caller's final outcome is a
  network error and no response is substituted. The error is not the network's own
  rejection: the catch callback drops it, the promise handed to \<open>respondWith\<close> is
  fulfilled with no response, and the host reports that as a network error. (The claim
  as written asks only that the cache namespace of this version has no entry, and
  promises the original failure; see \<open>offline_failure_not_propagated\<close>.)
\<close>

theorem fetch_offline_uncached:
  assumes "method_name req = ''GET''" and "net req = Inl e"
    and "storage_match (storage w) (url req) = None"
  shows "fst (fetch_handler net req w) = RespondedWith (Fulfilled None)
       \<and> fst (handle_fetch net req w) = NetworkError NotAResponse"
  using assms by (simp add: handler_defs)

theorem fetch_offline_uncached_witness:
  "method_name (get_request ''/reports'') = ''GET''
     \<and> offline (get_request ''/reports'') = Inl (NetworkFailure ''offline'')
     \<and> storage_match (storage with_older_cache) (url (get_request ''/reports'')) = None
     \<and> fst (fetch_handler offline (get_request ''/reports'') with_older_cache)
         = RespondedWith (Fulfilled None)
     \<and> fst (handle_fetch offline (get_request ''/reports'') with_older_cache)
         = NetworkError NotAResponse"
proof -
  have h1: "method_name (get_request ''/reports'') = ''GET''"
    by (simp add: get_request_def)
  have h2: "offline (get_request ''/reports'') = Inl (NetworkFailure ''offline'')"
    by (simp add: offline_def)
  have h3: "storage_match (storage with_older_cache) (url (get_request ''/reports'')) = None"
    by (simp add: sample_defs get_request_def cache_match_def same_url_def without_fragment_def)
  from fetch_offline_uncached [where net = offline and w = with_older_cache, OF h1 h2 h3] h1 h2 h3 show ?thesis by simp
qed

text \<open>
  The claim C1 as written fails twice. The cache namespace of this version has no entry
  for \<open>/app.js\<close>, the network is down, and the caller is handed the entry that the
  cache of the older version still holds, not the failure. And where no cache at all has
  an entry (\<open>/reports\<close>), the handler's promise is not rejected with the network's
  failure but fulfilled with no response, so the caller's error is the host's.
\<close>

theorem offline_failure_not_propagated:
  "method_name (get_request ''/app.js'') = ''GET''
     \<and> offline (get_request ''/app.js'') = Inl (NetworkFailure ''offline'')
     \<and> cache_match (namespace (storage with_older_cache)) (url (get_request ''/app.js'')) = None
     \<and> fst (handle_fetch offline (get_request ''/app.js'') with_older_cache)
         = Delivered old_script
     \<and> fst (handle_fetch offline (get_request ''/app.js'') with_older_cache)
         \<noteq> NetworkError (NetworkFailure ''offline'')
     \<and> method_name (get_request ''/reports'') = ''GET''
     \<and> offline (get_request ''/reports'') = Inl (NetworkFailure ''offline'')
     \<and> cache_match (namespace (storage shell_only)) (url (get_request ''/reports'')) = None
     \<and> fst (fetch_handler offline (get_request ''/reports'') shell_only)
         = RespondedWith (Fulfilled None)
     \<and> fst (fetch_handler offline (get_request ''/reports'') shell_only)
         \<noteq> RespondedWith (Rejected (NetworkFailure ''offline''))
     \<and> fst (handle_fetch offline (get_request ''/reports'') shell_only)
         = NetworkError NotAResponse
     \<and> fst (handle_fetch offline (get_request ''/reports'') shell_only)
         \<noteq> NetworkError (NetworkFailure ''offline'')"
  by (simp add: handler_defs sample_defs)

text \<open>
  C2, as amended. When a GET request is rejected by the network, the cache namespace
  of this version has an entry for its URL and no cache created before the namespace has
  one (in particular when the namespace is the oldest or the only cache), the caller
  gets exactly the stored response, status and body bytes as stored.
\<close>

theorem fetch_offline_cached:
  assumes "method_name req = ''GET''" and "net req = Inl e"
    and "storage w = older @ (CACHE_NAME, c) # newer"
    and "storage_match older (url req) = None"
    and "cache_match c (url req) = Some r"
  shows "fst (fetch_handler net req w) = RespondedWith (Fulfilled (Some r))
       \<and> fst (handle_fetch net req w) = Delivered r"
  using assms by (simp add: handler_defs storage_match_append)

theorem fetch_offline_cached_witness:
  "method_name (get_request ''/manifest.json'') = ''GET''
     \<and> offline (get_request ''/manifest.json'') = Inl (NetworkFailure ''offline'')
     \<and> storage with_older_cache
         = [(''topview-shell-v0'', [(''/index.html'', stale_page), (''/app.js'', old_script)])]
             @ (CACHE_NAME, shell) # []
     \<and> storage_match [(''topview-shell-v0'', [(''/index.html'', stale_page), (''/app.js'', old_script)])]
           (url (get_request ''/manifest.json'')) = None
     \<and> cache_match shell (url (get_request ''/manifest.json'')) = Some manifest
     \<and> fst (fetch_handler offline (get_request ''/manifest.json'') with_older_cache)
         = RespondedWith (Fulfilled (Some manifest))
     \<and> fst (handle_fetch offline (get_request ''/manifest.json'') with_older_cache)
         = Delivered manifest"
proof -
  let ?old = "[(''topview-shell-v0'', [(''/index.html'', stale_page), (''/app.js'', old_script)])]"
  have h1: "method_name (get_request ''/manifest.json'') = ''GET''"
    by (simp add: get_request_def)
  have h2: "offline (get_request ''/manifest.json'') = Inl (NetworkFailure ''offline'')"
    by (simp add: offline_def)
  have h3: "storage with_older_cache = ?old @ (CACHE_NAME, shell) # []"
    by (simp add: with_older_cache_def CACHE_NAME_def)
  have h4: "storage_match ?old (url (get_request ''/manifest.json'')) = None"
    by (simp add: get_request_def cache_match_def same_url_def without_fragment_def)
  have h5: "cache_match shell (url (get_request ''/manifest.json'')) = Some manifest"
    by (simp add: get_request_def cache_match_def same_url_def without_fragment_def shell_def)
  from fetch_offline_cached [where net = offline and w = with_older_cache, OF h1 h2 h3 h4 h5] h1 h2 h3 h4 h5 show ?thesis by simp
qed

text \<open>
  The claim C2 as written fails: the namespace of this version holds the current page
  under \<open>/index.html\<close>, the network is down, and the caller is handed the page of the
  older version's cache, which was created first.
\<close>

theorem older_cache_shadows:
  "method_name (get_request ''/index.html'') = ''GET''
     \<and> offline (get_request ''/index.html'') = Inl (NetworkFailure ''offline'')
     \<and> cache_match (namespace (storage with_older_cache)) (url (get_request ''/index.html''))
         = Some index_page
     \<and> fst (handle_fetch offline (get_request ''/index.html'') with_older_cache)
         = Delivered stale_page
     \<and> fst (handle_fetch offline (get_request ''/index.html'') with_older_cache)
         \<noteq> Delivered index_page
     \<and> body stale_page \<noteq> body index_page"
  by (simp add: handler_defs sample_defs)

text \<open>
  C3. When the network answers a GET request, the caller gets the network's response
  as it is, whatever the cache storage holds for the request.
\<close>

theorem fetch_online:
  assumes "method_name req = ''GET''" and "net req = Inr r"
  shows "fst (fetch_handler net req w) = RespondedWith (Fulfilled (Some r))
       \<and> fst (handle_fetch net req w) = Delivered r"
  using assms by (simp add: handler_defs)

theorem fetch_online_witness:
  "method_name (get_request ''/index.html'') = ''GET''
     \<and> redeployed (get_request ''/index.html'') = Inr new_page
     \<and> storage_match (storage with_older_cache) ''/index.html'' = Some stale_page
     \<and> fst (fetch_handler redeployed (get_request ''/index.html'') with_older_cache)
         = RespondedWith (Fulfilled (Some new_page))
     \<and> fst (handle_fetch redeployed (get_request ''/index.html'') with_older_cache)
         = Delivered new_page"
proof -
  have h1: "method_name (get_request ''/index.html'') = ''GET''"
    by (simp add: get_request_def)
  have h2: "redeployed (get_request ''/index.html'') = Inr new_page"
    by (simp add: redeployed_def get_request_def)
  have h3: "storage_match (storage with_older_cache) ''/index.html'' = Some stale_page"
    by (simp add: with_older_cache_def cache_match_def same_url_def without_fragment_def)
  from fetch_online [where net = redeployed and w = with_older_cache, OF h1 h2] h1 h2 h3 show ?thesis by simp
qed

text \<open>
  C4. For a request whose method is not GET the handler returns at once: it does not
  answer, issues no call (so none to the cache storage and none to the network) and
  leaves the worker's state as it was; the browser performs the request itself and the
  caller gets the network's response or its failure.
\<close>

theorem fetch_not_get:
  assumes "method_name req \<noteq> ''GET''"
  shows "fetch_handler net req w = (NotHandled, w)
       \<and> handle_fetch net req w =
           ((case net req of Inl e \<Rightarrow> NetworkError e | Inr r \<Rightarrow> Delivered r), w)"
  using assms by (simp add: handler_defs)

theorem fetch_not_get_witness:
  "method_name post_projects \<noteq> ''GET''
     \<and> fetch_handler offline post_projects with_older_cache = (NotHandled, with_older_cache)
     \<and> handle_fetch offline post_projects with_older_cache
         = (NetworkError (NetworkFailure ''offline''), with_older_cache)"
proof -
  have h: "method_name post_projects \<noteq> ''GET''"
    by (simp add: post_projects_def)
  from fetch_not_get [OF h, of offline with_older_cache] h show ?thesis
    by (simp add: offline_def)
qed

text \<open>
  C8. Handling a request never changes the cache storage, whatever the method, the
  network's answer and the caches hold: the calls the fetch handler issues are the
  network attempt, \<open>respondWith\<close> and, after a rejection, the one read
  \<open>caches.match\<close>. The activate handler does not touch the storage either, so every
  write is the install handler's.
\<close>

theorem fetch_storage_unchanged:
  "storage (snd (handle_fetch net req w)) = storage w
     \<and> storage (snd (activate_handler w)) = storage w
     \<and> calls (snd (handle_fetch net req w)) =
         calls w @ (if method_name req \<noteq> ''GET'' then []
                    else [NetFetch req, RespondWith]
                           @ (case net req of Inl e \<Rightarrow> [CachesMatch req] | Inr r \<Rightarrow> []))"
  by (simp add: handler_defs activate_handler_def clients_claim_def waitUntil_def
        Let_def case_prod_beta split: settled.splits sum.splits)

theorem fetch_storage_unchanged_witness:
  "storage (snd (handle_fetch offline (get_request ''/index.html'') with_older_cache))
     = storage with_older_cache
     \<and> calls (snd (handle_fetch offline (get_request ''/index.html'') with_older_cache))
         = [NetFetch (get_request ''/index.html''), RespondWith,
            CachesMatch (get_request ''/index.html'')]"
  using fetch_storage_unchanged [of offline "get_request ''/index.html''" with_older_cache]
  by (simp add: offline_def get_request_def with_older_cache_def)

text \<open>
  C10, as amended. What the fetch handler answers, and what the caller gets, is a
  function of the request, of the network's answer to it, and of the first entry for its
  URL over all caches of the origin's cache storage in creation order: two runs that
  agree on these agree on the result, whatever else differs (the rest of the network, the
  other entries, the worker's flag and earlier calls). The contents of the namespace of
  this version alone do not fix the result; see \<open>same_namespace_differs\<close>.
\<close>

theorem fetch_depends_on:
  assumes "net1 req = net2 req"
    and "storage_match (storage w1) (url req) = storage_match (storage w2) (url req)"
  shows "fst (fetch_handler net1 req w1) = fst (fetch_handler net2 req w2)
       \<and> fst (handle_fetch net1 req w1) = fst (handle_fetch net2 req w2)"
  using assms by (simp add: handler_defs Let_def case_prod_beta split: settled.splits sum.splits)

theorem fetch_depends_on_witness:
  "online (get_request ''/manifest.json'') = redeployed (get_request ''/manifest.json'')
     \<and> storage_match (storage shell_only) (url (get_request ''/manifest.json''))
         = storage_match (storage with_older_cache) (url (get_request ''/manifest.json''))
     \<and> fst (fetch_handler online (get_request ''/manifest.json'') shell_only)
         = fst (fetch_handler redeployed (get_request ''/manifest.json'') with_older_cache)
     \<and> fst (handle_fetch online (get_request ''/manifest.json'') shell_only)
         = fst (handle_fetch redeployed (get_request ''/manifest.json'') with_older_cache)"
proof -
  have h1: "online (get_request ''/manifest.json'') = redeployed (get_request ''/manifest.json'')"
    by (simp add: online_def redeployed_def get_request_def)
  have h2: "storage_match (storage shell_only) (url (get_request ''/manifest.json''))
      = storage_match (storage with_older_cache) (url (get_request ''/manifest.json''))"
    by (simp add: shell_only_def with_older_cache_def shell_def get_request_def cache_match_def same_url_def without_fragment_def)
  from fetch_depends_on [where ?net1.0 = online and ?net2.0 = redeployed, OF h1 h2] h1 h2
  show ?thesis by simp
qed

text \<open>
  The claim C10 as written fails: two workers whose namespace of this version holds the
  same entries get different answers to the same request under the same network
  failure, because one origin still has the older version's cache.
\<close>

theorem same_namespace_differs:
  "namespace (storage shell_only) = namespace (storage with_older_cache)
     \<and> fst (handle_fetch offline (get_request ''/index.html'') shell_only) = Delivered index_page
     \<and> fst (handle_fetch offline (get_request ''/index.html'') with_older_cache)
         = Delivered stale_page
     \<and> Delivered index_page \<noteq> Delivered stale_page"
  by (simp add: handler_defs sample_defs)

section \<open>The install handler\<close>

text \<open>
  C5. When the install handler's promise is fulfilled and the cache namespace of this
  version was empty (or did not exist) before, the namespace holds the shell assets and
  nothing else: its keys are the list \<open>ASSETS\<close>, each once and in that order, and every
  entry is the response the network gave for its URL.
\<close>

theorem install_populates:
  assumes "namespace (storage w) = []"
    and "fst (install_handler net w) = Fulfilled ()"
  shows "map fst (namespace (storage (snd (install_handler net w)))) = ASSETS
       \<and> (\<forall>e\<in>set (namespace (storage (snd (install_handler net w)))).
             net (get_request (fst e)) = Inr (snd e))"
proof -
  from assms(2) obtain kvs where kvs: "fst (fetch_all net ASSETS w) = Fulfilled kvs"
    by (auto simp: fst_install_handler split: settled.splits)
  from fetch_all_Fulfilled [OF kvs]
  have keys: "map fst kvs = ASSETS"
    and vals: "\<forall>e\<in>set kvs. net (get_request (fst e)) = Inr (snd e)"
    by simp_all
  have "distinct (map (\<lambda>e. without_fragment (fst e)) kvs)"
    by (rule distinct_keys_ASSETS [OF keys])
  then have "foldl cache_put [] kvs = kvs" by (simp add: foldl_cache_put)
  then have "namespace (storage (snd (install_handler net w))) = kvs"
    using kvs assms(1)
    by (simp add: storage_install_handler namespace_update_cache [OF namespace_opened])
  with keys vals show ?thesis by simp
qed

theorem install_populates_witness:
  "namespace (storage fresh) = []
     \<and> fst (install_handler online fresh) = Fulfilled ()
     \<and> map fst (namespace (storage (snd (install_handler online fresh))))
         = [''/'', ''/index.html'', ''/manifest.json'']
     \<and> namespace (storage (snd (install_handler online fresh))) = shell"
proof -
  have h1: "namespace (storage fresh) = []"
    by (simp add: fresh_def namespace_def)
  have h2: "fst (install_handler online fresh) = Fulfilled ()"
    by (simp add: handler_defs sample_defs install_defs Let_def)
  have h3: "namespace (storage (snd (install_handler online fresh))) = shell"
    by (simp add: handler_defs sample_defs install_defs Let_def)
  from install_populates [where net = online, OF h1 h2] h1 h2 h3 show ?thesis
    by (simp add: ASSETS_def)
qed

text \<open>
  C6. When the network rejects the request for one of the shell assets, the install
  handler's promise is rejected, the installation fails with \<open>InstallFailure\<close>, and
  the worker ends redundant: it is neither installed nor activated, whether or not an
  older worker is in use. Nothing is stored in the namespace.
\<close>

theorem install_fails:
  assumes "u \<in> set ASSETS" and "net (get_request u) = Inl e"
  shows "\<exists>e'. fst (install_handler net w) = Rejected e'
            \<and> fst (run_install net w) = (Redundant, Some (InstallFailure e'))
            \<and> fst (lifecycle net older_in_use w) = (Redundant, Some (InstallFailure e'))
            \<and> namespace (storage (snd (install_handler net w))) = namespace (storage w)"
proof -
  from fetch_all_Rejected [of u ASSETS net e w] assms
  obtain e' where rej: "fst (fetch_all net ASSETS w) = Rejected e'" by blast
  then have "fst (install_handler net w) = Rejected e'"
    by (simp add: fst_install_handler)
  moreover have "namespace (storage (snd (install_handler net w))) = namespace (storage w)"
    using rej namespace_opened [of w] by (simp add: storage_install_handler namespace_def)
  ultimately show ?thesis
    by (auto simp: lifecycle_def run_install_def Let_def case_prod_beta)
qed

theorem install_fails_witness:
  "''/manifest.json'' \<in> set ASSETS
     \<and> manifest_missing (get_request ''/manifest.json'') = Inl (NetworkFailure ''timeout'')
     \<and> fst (install_handler manifest_missing fresh) = Rejected (NetworkFailure ''timeout'')
     \<and> fst (lifecycle manifest_missing False fresh)
         = (Redundant, Some (InstallFailure (NetworkFailure ''timeout'')))
     \<and> namespace (storage (snd (install_handler manifest_missing fresh))) = []"
proof -
  have h1: "''/manifest.json'' \<in> set ASSETS"
    by (simp add: ASSETS_def)
  have h2: "manifest_missing (get_request ''/manifest.json'') = Inl (NetworkFailure ''timeout'')"
    by (simp add: manifest_missing_def get_request_def)
  have h3: "fst (install_handler manifest_missing fresh) = Rejected (NetworkFailure ''timeout'')"
    by (simp add: handler_defs sample_defs install_defs Let_def)
  have h4: "namespace (storage fresh) = []"
    by (simp add: fresh_def namespace_def)
  from install_fails [where net = manifest_missing and w = fresh and older_in_use = False,
      OF h1 h2] h1 h2 h3 h4
  show ?thesis by auto
qed

text \<open>
  C7, as amended. Running the install handler again on the cache storage that a
  fulfilled install left behind, with the network answering every shell asset as it did
  the first time, is fulfilled again and leaves the cache storage as it was. (Without
  the condition on the network the claim fails, see \<open>reinstall_refreshes\<close>: the
  population fetches every asset anew and overwrites the stored entry.)
\<close>

theorem install_again:
  assumes "fst (install_handler net w) = Fulfilled ()"
    and "storage w' = storage (snd (install_handler net w))"
    and "\<forall>u\<in>set ASSETS. net' (get_request u) = net (get_request u)"
  shows "fst (install_handler net' w') = Fulfilled ()
       \<and> storage (snd (install_handler net' w')) = storage w'"
proof -
  from assms(1) obtain kvs where kvs: "fst (fetch_all net ASSETS w) = Fulfilled kvs"
    by (auto simp: fst_install_handler split: settled.splits)
  have kvs': "fst (fetch_all net' ASSETS w') = Fulfilled kvs"
    using fetch_all_cong [OF assms(3), of w' w] kvs by simp
  have d: "distinct (map (\<lambda>e. without_fragment (fst e)) kvs)"
    using fetch_all_Fulfilled [OF kvs] by (intro distinct_keys_ASSETS) simp
  let ?S = "storage (snd (caches_open CACHE_NAME w))"
  let ?f = "\<lambda>c. foldl cache_put c kvs"
  have w': "storage w' = update_cache CACHE_NAME ?f ?S"
    using assms(2) kvs by (simp add: storage_install_handler)
  have "map_of (storage w') CACHE_NAME \<noteq> None"
    by (simp add: w' map_of_update_cache namespace_opened)
  then have opened: "storage (snd (caches_open CACHE_NAME w')) = storage w'"
    by (simp add: caches_open_def issue_def)
  have "storage (snd (install_handler net' w')) = update_cache CACHE_NAME ?f (storage w')"
    using kvs' by (simp add: storage_install_handler opened)
  also have "\<dots> = update_cache CACHE_NAME (\<lambda>c. ?f (?f c)) ?S"
    by (simp add: w' update_cache_twice)
  also have "\<dots> = storage w'"
    by (simp add: w' foldl_cache_put_twice [OF d])
  finally show ?thesis
    using kvs' by (simp add: fst_install_handler)
qed

theorem install_again_witness:
  "fst (install_handler online fresh) = Fulfilled ()
     \<and> storage shell_only = storage (snd (install_handler online fresh))
     \<and> shell_server (get_request ''/'') = online (get_request ''/'')
     \<and> shell_server (get_request ''/index.html'') = online (get_request ''/index.html'')
     \<and> shell_server (get_request ''/manifest.json'') = online (get_request ''/manifest.json'')
     \<and> fst (install_handler shell_server shell_only) = Fulfilled ()
     \<and> storage (snd (install_handler shell_server shell_only)) = storage shell_only"
proof -
  have h1: "fst (install_handler online fresh) = Fulfilled ()"
    by (simp add: handler_defs sample_defs install_defs Let_def)
  have h2: "storage shell_only = storage (snd (install_handler online fresh))"
    by (simp add: handler_defs sample_defs install_defs Let_def)
  have h3: "\<forall>u\<in>set ASSETS. shell_server (get_request u) = online (get_request u)"
    by (simp add: ASSETS_def shell_server_def online_def get_request_def)
  from install_again [where net = online and net' = shell_server, OF h1 h2 h3] h1 h2 h3
  show ?thesis by (simp add: ASSETS_def)
qed

text \<open>
  The claim C7 as written fails: after the shell was redeployed, a second install on
  the populated namespace is fulfilled and replaces the stored pages by the new ones.
\<close>

theorem reinstall_refreshes:
  "fst (install_handler online fresh) = Fulfilled ()
     \<and> namespace (storage (snd (install_handler online fresh)))
         = [(''/'', index_page), (''/index.html'', index_page), (''/manifest.json'', manifest)]
     \<and> fst (install_handler redeployed (snd (install_handler online fresh))) = Fulfilled ()
     \<and> namespace (storage (snd (install_handler redeployed (snd (install_handler online fresh)))))
         = [(''/'', new_page), (''/index.html'', new_page), (''/manifest.json'', manifest)]
     \<and> body new_page \<noteq> body index_page"
  by (simp add: handler_defs sample_defs install_defs Let_def)

text \<open>
  C9. The install handler calls \<open>skipWaiting\<close> on every run, right after it has handed
  its one promise to \<open>waitUntil\<close> and before the population issues its first request:
  the calls are the same list whatever the network answers, the flag is set whether the
  population is fulfilled or rejected, and the promise the event waits for settles as
  \<open>cache.addAll\<close> does.
\<close>

theorem install_skips_waiting:
  "skip_waiting_flag (snd (install_handler net w))
     \<and> calls (snd (install_handler net w)) =
         calls w @ [CachesOpen CACHE_NAME, WaitUntil, SkipWaiting,
                    CacheAddAll CACHE_NAME ASSETS]
           @ map (\<lambda>u. NetFetch (get_request u)) ASSETS
     \<and> fst (install_handler net w) = fst (cache_addAll net CACHE_NAME ASSETS w)"
  by (simp add: flag_install_handler calls_install_handler fst_install_handler_addAll)

theorem install_skips_waiting_witness:
  "fst (install_handler offline fresh) = Rejected (NetworkFailure ''offline'')
     \<and> skip_waiting_flag (snd (install_handler offline fresh))
     \<and> calls (snd (install_handler offline fresh)) =
         [CachesOpen ''topview-shell-v1'', WaitUntil, SkipWaiting,
          CacheAddAll ''topview-shell-v1'' [''/'', ''/index.html'', ''/manifest.json''],
          NetFetch (get_request ''/''), NetFetch (get_request ''/index.html''),
          NetFetch (get_request ''/manifest.json'')]"
proof -
  have h: "fst (install_handler offline fresh) = Rejected (NetworkFailure ''offline'')"
    by (simp add: handler_defs sample_defs install_defs Let_def)
  from install_skips_waiting [of offline fresh] h show ?thesis
    by (simp add: fresh_def CACHE_NAME_def ASSETS_def)
qed

end
